theory Spec2Isabelle
  imports Main "HOL-Library.Word" "HOL-Library.Monad_Syntax"
begin

section \<open>The HTS Settings characteristic (hts\_settings.h)\<close>

text \<open>
  The header declares two types and no function: the structure \<open>hts_settings\<close> of three
  \<open>uint8_t\<close> members, and the union \<open>hts_settings_data\<close> that overlays an array
  \<open>uint8_t bytes[sizeof(hts_settings)]\<close> on one such structure. Converting between the
  record and its wire form is done by storing through one member of the union and
  reading through the other. The union is therefore modelled as the bytes of storage
  its two members share, and both members as views of that storage.
\<close>

subsection \<open>struct hts\_settings\<close>

type_synonym uint8_t = "8 word"

record hts_settings =
  wrist_orientation :: uint8_t
  pair_button_orientation :: uint8_t
  intensity_level :: uint8_t

text \<open>
  The values the member comments give a meaning to: 0 (left) and 1 (right) for both
  orientations; 0 (low), 1 (medium) and 2 (high) for the intensity. The header itself
  never checks them.
\<close>

definition valid_hts_settings :: "hts_settings \<Rightarrow> bool" where
  "valid_hts_settings r \<longleftrightarrow>
     (wrist_orientation r = 0 \<or> wrist_orientation r = 1) \<and>
     (pair_button_orientation r = 0 \<or> pair_button_orientation r = 1) \<and>
     (intensity_level r = 0 \<or> intensity_level r = 1 \<or> intensity_level r = 2)"

text \<open>
  Layout. A \<open>uint8_t\<close> occupies one byte and has alignment 1, so the members follow each
  other in declaration order with no padding between or after them.
\<close>

definition sizeof_uint8_t :: nat where
  "sizeof_uint8_t = 1"

definition offsetof_wrist_orientation :: nat where
  "offsetof_wrist_orientation = 0"

definition offsetof_pair_button_orientation :: nat where
  "offsetof_pair_button_orientation = offsetof_wrist_orientation + sizeof_uint8_t"

definition offsetof_intensity_level :: nat where
  "offsetof_intensity_level = offsetof_pair_button_orientation + sizeof_uint8_t"

definition sizeof_hts_settings :: nat where
  "sizeof_hts_settings = offsetof_intensity_level + sizeof_uint8_t"

subsection \<open>union hts\_settings\_data\<close>

text \<open>
  An object of the union is its storage: a list of bytes, one per address offset. The
  union is as large as its largest member, and both members start at offset 0.
\<close>

type_synonym hts_settings_data = "uint8_t list"

definition sizeof_bytes :: nat where
  "sizeof_bytes = sizeof_hts_settings * sizeof_uint8_t"

definition sizeof_hts_settings_data :: nat where
  "sizeof_hts_settings_data = max sizeof_bytes sizeof_hts_settings"

definition is_hts_settings_data :: "hts_settings_data \<Rightarrow> bool" where
  "is_hts_settings_data u \<longleftrightarrow> length u = sizeof_hts_settings_data"

text \<open>A zero-initialised object of the union.\<close>

definition hts_settings_data_zero :: hts_settings_data where
  "hts_settings_data_zero = replicate sizeof_hts_settings_data 0"

text \<open>
  Access to one byte of the object. An offset outside the object is undefined behaviour
  in C; here it is the result \<open>None\<close>.
\<close>

definition load_byte :: "nat \<Rightarrow> hts_settings_data \<Rightarrow> uint8_t option" where
  "load_byte off u = (if off < length u then Some (u ! off) else None)"

definition store_byte :: "nat \<Rightarrow> uint8_t \<Rightarrow> hts_settings_data \<Rightarrow> hts_settings_data option" where
  "store_byte off b u = (if off < length u then Some (u[off := b]) else None)"

text \<open>Member \<open>data\<close>: the structure, each member at its offset.\<close>

definition data :: "hts_settings_data \<Rightarrow> hts_settings option" where
  "data u = do {
     w \<leftarrow> load_byte offsetof_wrist_orientation u;
     p \<leftarrow> load_byte offsetof_pair_button_orientation u;
     i \<leftarrow> load_byte offsetof_intensity_level u;
     Some \<lparr>wrist_orientation = w, pair_button_orientation = p, intensity_level = i\<rparr>
   }"

definition data_update :: "hts_settings \<Rightarrow> hts_settings_data \<Rightarrow> hts_settings_data option" where
  "data_update r u = do {
     u1 \<leftarrow> store_byte offsetof_wrist_orientation (wrist_orientation r) u;
     u2 \<leftarrow> store_byte offsetof_pair_button_orientation (pair_button_orientation r) u1;
     store_byte offsetof_intensity_level (intensity_level r) u2
   }"

text \<open>
  Member \<open>bytes\<close>: an array of \<open>sizeof(hts_settings)\<close> elements at offset 0. Element
  \<open>i\<close> is the byte at offset \<open>i * sizeof(uint8_t)\<close>.
\<close>

fun load_array :: "nat \<Rightarrow> nat \<Rightarrow> hts_settings_data \<Rightarrow> uint8_t list option" where
  "load_array off 0 u = Some []"
| "load_array off (Suc n) u = do {
     b \<leftarrow> load_byte off u;
     bs \<leftarrow> load_array (off + sizeof_uint8_t) n u;
     Some (b # bs)
   }"

fun store_array :: "nat \<Rightarrow> uint8_t list \<Rightarrow> hts_settings_data \<Rightarrow> hts_settings_data option" where
  "store_array off [] u = Some u"
| "store_array off (b # bs) u = do {
     u' \<leftarrow> store_byte off b u;
     store_array (off + sizeof_uint8_t) bs u'
   }"

definition bytes :: "hts_settings_data \<Rightarrow> uint8_t list option" where
  "bytes u = load_array 0 sizeof_hts_settings u"

text \<open>
  A value of the member's type \<open>uint8_t [sizeof(hts_settings)]\<close> has exactly that many
  elements; a list of another length is not a value that can be stored through it.
\<close>

definition bytes_update :: "uint8_t list \<Rightarrow> hts_settings_data \<Rightarrow> hts_settings_data option" where
  "bytes_update bs u =
     (if length bs = sizeof_hts_settings then store_array 0 bs u else None)"

subsection \<open>The two conversions\<close>

text \<open>
  Encoding stores the structure through member \<open>data\<close> of a union object and reads
  member \<open>bytes\<close> back; decoding stores the received bytes through \<open>bytes\<close> and reads
  \<open>data\<close>. Both return the object they worked on next to their result.
\<close>

definition encode_in ::
  "hts_settings \<Rightarrow> hts_settings_data \<Rightarrow> (uint8_t list \<times> hts_settings_data) option" where
  "encode_in r u = do {
     u' \<leftarrow> data_update r u;
     bs \<leftarrow> bytes u';
     Some (bs, u')
   }"

definition decode_in ::
  "uint8_t list \<Rightarrow> hts_settings_data \<Rightarrow> (hts_settings \<times> hts_settings_data) option" where
  "decode_in bs u = do {
     u' \<leftarrow> bytes_update bs u;
     r \<leftarrow> data u';
     Some (r, u')
   }"

definition encode :: "hts_settings \<Rightarrow> uint8_t list option" where
  "encode r = map_option fst (encode_in r hts_settings_data_zero)"

definition decode :: "uint8_t list \<Rightarrow> hts_settings option" where
  "decode bs = map_option fst (decode_in bs hts_settings_data_zero)"

subsection \<open>Decoding a received buffer\<close>

text \<open>
  Modelled from the spec: the routine that receives a buffer of run-time length, checks
  the length and reports an error is not part of the header, which only declares the
  types. The specification's words are: decode, given exactly 3 bytes, maps byte 0 to
  \<open>wrist_orientation\<close>, byte 1 to \<open>pair_button_orientation\<close> and byte 2 to
  \<open>intensity_level\<close>, verbatim; it fails with a LengthMismatch error if the input is not
  exactly 3 bytes, immediately and with nothing partially applied. The length is
  therefore checked before the union object is touched, and a buffer that passes goes
  through the union as in \<open>decode_in\<close>. The outer \<open>option\<close> is that of the byte
  accesses; the inner sum is what the routine reports. The two errors are those of the
  specification's taxonomy; InvalidField is optional there and never raised here, as the
  union validates nothing.
\<close>

datatype error = LengthMismatch | InvalidField

definition decode_checked_in ::
  "uint8_t list \<Rightarrow> hts_settings_data \<Rightarrow> ((error + hts_settings) \<times> hts_settings_data) option"
  where
  "decode_checked_in bs u =
     (if length bs \<noteq> 3 then Some (Inl LengthMismatch, u)
      else map_option (\<lambda>(r, u'). (Inr r, u')) (decode_in bs u))"

definition decode_checked :: "uint8_t list \<Rightarrow> (error + hts_settings) option" where
  "decode_checked bs = map_option fst (decode_checked_in bs hts_settings_data_zero)"

section \<open>Layout facts\<close>

lemma sizeof_hts_settings_eq: "sizeof_hts_settings = 3"
  by (simp add: sizeof_hts_settings_def offsetof_intensity_level_def
      offsetof_pair_button_orientation_def offsetof_wrist_orientation_def sizeof_uint8_t_def)

lemma offsets_eq:
  "offsetof_wrist_orientation = 0"
  "offsetof_pair_button_orientation = 1"
  "offsetof_intensity_level = 2"
  by (simp_all add: offsetof_intensity_level_def offsetof_pair_button_orientation_def
      offsetof_wrist_orientation_def sizeof_uint8_t_def)

lemma sizeof_hts_settings_data_eq: "sizeof_hts_settings_data = 3"
  by (simp add: sizeof_hts_settings_data_def sizeof_bytes_def sizeof_hts_settings_eq
      sizeof_uint8_t_def)

lemma length_three: "length xs = 3 \<longleftrightarrow> (\<exists>a b c. xs = [a, b, c])"
  by (auto simp: length_Suc_conv numeral_3_eq_3)

lemma is_hts_settings_data_iff: "is_hts_settings_data u \<longleftrightarrow> (\<exists>a b c. u = [a, b, c])"
  by (simp add: is_hts_settings_data_def sizeof_hts_settings_data_eq length_three)

lemma hts_settings_data_zero_eq: "hts_settings_data_zero = [0, 0, 0]"
  by (simp add: hts_settings_data_zero_def sizeof_hts_settings_data_eq numeral_3_eq_3)

section \<open>The views on a three-byte object\<close>

lemma data_update_three:
  "data_update r [a, b, c] =
     Some [wrist_orientation r, pair_button_orientation r, intensity_level r]"
  by (simp add: data_update_def store_byte_def offsets_eq)

lemma data_three:
  "data [a, b, c] =
     Some \<lparr>wrist_orientation = a, pair_button_orientation = b, intensity_level = c\<rparr>"
  by (simp add: data_def load_byte_def offsets_eq)

lemma bytes_three: "bytes [a, b, c] = Some [a, b, c]"
  by (simp add: bytes_def sizeof_hts_settings_eq numeral_3_eq_3 load_byte_def sizeof_uint8_t_def)

lemma bytes_update_three: "bytes_update [x, y, z] [a, b, c] = Some [x, y, z]"
  by (simp add: bytes_update_def sizeof_hts_settings_eq store_byte_def sizeof_uint8_t_def)

lemma bytes_update_length: "length bs \<noteq> 3 \<Longrightarrow> bytes_update bs u = None"
  by (simp add: bytes_update_def sizeof_hts_settings_eq)

lemma encode_in_three:
  "encode_in r [a, b, c] =
     Some ([wrist_orientation r, pair_button_orientation r, intensity_level r],
           [wrist_orientation r, pair_button_orientation r, intensity_level r])"
  by (simp add: encode_in_def data_update_three bytes_three)

lemma decode_in_three:
  "decode_in [x, y, z] [a, b, c] =
     Some (\<lparr>wrist_orientation = x, pair_button_orientation = y, intensity_level = z\<rparr>,
           [x, y, z])"
  by (simp add: decode_in_def bytes_update_three data_three)

lemma encode_eq:
  "encode r = Some [wrist_orientation r, pair_button_orientation r, intensity_level r]"
  by (simp add: encode_def hts_settings_data_zero_eq encode_in_three)

lemma decode_three:
  "decode [x, y, z] =
     Some \<lparr>wrist_orientation = x, pair_button_orientation = y, intensity_level = z\<rparr>"
  by (simp add: decode_def hts_settings_data_zero_eq decode_in_three)

lemma decode_length: "length bs \<noteq> 3 \<Longrightarrow> decode bs = None"
  by (simp add: decode_def decode_in_def bytes_update_length)

lemma decode_checked_in_three:
  "decode_checked_in [x, y, z] [a, b, c] =
     Some (Inr \<lparr>wrist_orientation = x, pair_button_orientation = y, intensity_level = z\<rparr>,
           [x, y, z])"
  by (simp add: decode_checked_in_def decode_in_three)

lemma decode_checked_in_length:
  "length bs \<noteq> 3 \<Longrightarrow> decode_checked_in bs u = Some (Inl LengthMismatch, u)"
  by (simp add: decode_checked_in_def)

section \<open>Properties\<close>

text \<open>
  C3. For every record, valid or not, encoding puts the members on the wire in
  declaration order: element 0 is \<open>wrist_orientation\<close>, element 1 is
  \<open>pair_button_orientation\<close>, element 2 is \<open>intensity_level\<close>. The record with
  members 0, 1, 2 encodes to the bytes 0, 1, 2.
\<close>

theorem encode_field_order:
  "encode r = Some [wrist_orientation r, pair_button_orientation r, intensity_level r] \<and>
   encode \<lparr>wrist_orientation = 0, pair_button_orientation = 1, intensity_level = 2\<rparr>
     = Some [0, 1, 2]"
  by (simp add: encode_eq)

text \<open>
  C1. Round trip from the record: for every record whose members hold documented
  values, decoding the bytes that encoding produced gives the record back, equal in
  every member.
\<close>

theorem decode_encode_roundtrip:
  assumes "valid_hts_settings r"
  shows "do { bs \<leftarrow> encode r; decode bs } = Some r"
  by (simp add: encode_eq decode_three)

theorem decode_encode_roundtrip_witness:
  "valid_hts_settings \<lparr>wrist_orientation = 1, pair_button_orientation = 0, intensity_level = 2\<rparr> \<and>
   do { bs \<leftarrow> encode \<lparr>wrist_orientation = 1, pair_button_orientation = 0, intensity_level = 2\<rparr>;
        decode bs }
     = Some \<lparr>wrist_orientation = 1, pair_button_orientation = 0, intensity_level = 2\<rparr>"
  using decode_encode_roundtrip
    [of "\<lparr>wrist_orientation = 1, pair_button_orientation = 0, intensity_level = 2\<rparr>"]
  by (simp add: valid_hts_settings_def)

text \<open>
  C2. The wire form of a record with documented values is exactly 3 bytes long, one for
  each member: it is as long as the structure is large.
\<close>

theorem encode_length:
  assumes "valid_hts_settings r"
  shows "map_option length (encode r) = Some 3 \<and> sizeof_hts_settings = 3"
  by (simp add: encode_eq sizeof_hts_settings_eq)

theorem encode_length_witness:
  "valid_hts_settings \<lparr>wrist_orientation = 0, pair_button_orientation = 1, intensity_level = 1\<rparr> \<and>
   map_option length
     (encode \<lparr>wrist_orientation = 0, pair_button_orientation = 1, intensity_level = 1\<rparr>)
     = Some 3 \<and>
   sizeof_hts_settings = 3"
proof -
  have v: "valid_hts_settings
             \<lparr>wrist_orientation = 0, pair_button_orientation = 1, intensity_level = 1\<rparr>"
    by (simp add: valid_hts_settings_def)
  from v encode_length [OF v] show ?thesis
    by blast
qed

text \<open>
  C4. Decoding an array of exactly 3 bytes succeeds and copies them verbatim: member
  \<open>wrist_orientation\<close> is byte 0, \<open>pair_button_orientation\<close> is byte 1 and
  \<open>intensity_level\<close> is byte 2. No byte is compared with the documented values: the
  bytes 1, 1, 2 give the record of those values, and the bytes 9, 9, 9 give the record
  of three nines.
\<close>

theorem decode_verbatim:
  "(length bs = 3 \<longrightarrow>
      decode bs = Some \<lparr>wrist_orientation = bs ! 0, pair_button_orientation = bs ! 1,
                          intensity_level = bs ! 2\<rparr>) \<and>
   decode [1, 1, 2]
     = Some \<lparr>wrist_orientation = 1, pair_button_orientation = 1, intensity_level = 2\<rparr> \<and>
   decode [9, 9, 9]
     = Some \<lparr>wrist_orientation = 9, pair_button_orientation = 9, intensity_level = 9\<rparr>"
proof (intro conjI impI)
  assume "length bs = 3"
  then obtain a b c where "bs = [a, b, c]"
    by (auto simp: length_three)
  then show "decode bs = Some \<lparr>wrist_orientation = bs ! 0, pair_button_orientation = bs ! 1,
                                 intensity_level = bs ! 2\<rparr>"
    by (simp add: decode_three)
qed (simp_all only: decode_three)

theorem decode_verbatim_witness:
  "length [200, 7, 255 :: uint8_t] = 3 \<and>
   decode [200, 7, 255]
     = Some \<lparr>wrist_orientation = 200, pair_button_orientation = 7, intensity_level = 255\<rparr>"
  using decode_verbatim [of "[200, 7, 255]"] by simp

text \<open>
  C5. Decoding a received buffer fails with LengthMismatch exactly when the buffer is
  not 3 bytes long: the 2-byte buffer 0, 1 and the 4-byte buffer 0, 1, 2, 3 are both
  refused with LengthMismatch, and every 3-byte buffer is decoded to a record.
\<close>

theorem decode_checked_length_mismatch:
  "(decode_checked bs = Some (Inl LengthMismatch) \<longleftrightarrow> length bs \<noteq> 3) \<and>
   decode_checked [0, 1] = Some (Inl LengthMismatch) \<and>
   decode_checked [0, 1, 2, 3] = Some (Inl LengthMismatch) \<and>
   ((\<exists>r. decode_checked bs = Some (Inr r)) \<longleftrightarrow> length bs = 3)"
proof -
  have fail: "decode_checked xs = Some (Inl LengthMismatch)" if "length xs \<noteq> 3" for xs
    using that by (simp add: decode_checked_def decode_checked_in_length)
  have ok: "\<exists>r. decode_checked xs = Some (Inr r)" if "length xs = 3" for xs
  proof -
    from that obtain a b c where "xs = [a, b, c]"
      by (auto simp: length_three)
    then show ?thesis
      by (simp add: decode_checked_def hts_settings_data_zero_eq decode_checked_in_three)
  qed
  have "decode_checked bs = Some (Inl LengthMismatch) \<longleftrightarrow> length bs \<noteq> 3"
    using fail [of bs] ok [of bs] by (cases "length bs = 3") auto
  moreover have "(\<exists>r. decode_checked bs = Some (Inr r)) \<longleftrightarrow> length bs = 3"
    using fail [of bs] ok [of bs] by (cases "length bs = 3") auto
  moreover have "decode_checked [0, 1] = Some (Inl LengthMismatch)"
    by (rule fail) simp
  moreover have "decode_checked [0, 1, 2, 3] = Some (Inl LengthMismatch)"
    by (rule fail) simp
  ultimately show ?thesis by blast
qed

text \<open>
  C6. Encoding a record with documented values never fails, whatever the union object
  it works on held before: every byte access falls inside the object, and the result is
  a sequence of 3 bytes.
\<close>

theorem encode_succeeds:
  assumes "valid_hts_settings r" and "is_hts_settings_data u"
  shows "\<exists>bs u'. encode_in r u = Some (bs, u') \<and> length bs = 3 \<and> encode r = Some bs"
proof -
  from assms(2) obtain a b c where "u = [a, b, c]"
    by (auto simp: is_hts_settings_data_iff)
  then show ?thesis
    by (simp add: encode_in_three encode_eq)
qed

theorem encode_succeeds_witness:
  "valid_hts_settings \<lparr>wrist_orientation = 1, pair_button_orientation = 1, intensity_level = 0\<rparr> \<and>
   is_hts_settings_data [170, 187, 204] \<and>
   (\<exists>bs u'. encode_in
               \<lparr>wrist_orientation = 1, pair_button_orientation = 1, intensity_level = 0\<rparr>
               [170, 187, 204] = Some (bs, u') \<and>
             length bs = 3 \<and>
             encode \<lparr>wrist_orientation = 1, pair_button_orientation = 1, intensity_level = 0\<rparr>
               = Some bs)"
proof -
  have v: "valid_hts_settings
             \<lparr>wrist_orientation = 1, pair_button_orientation = 1, intensity_level = 0\<rparr>"
    by (simp add: valid_hts_settings_def)
  have w: "is_hts_settings_data [170, 187, 204]"
    by (simp add: is_hts_settings_data_def sizeof_hts_settings_data_eq)
  from v w encode_succeeds [OF v w] show ?thesis
    by blast
qed

text \<open>
  C7. A received buffer that is not 3 bytes long is refused as a whole: the result is
  the error LengthMismatch and carries no record, and the union object is handed back
  exactly as it was, with no byte of the buffer stored in it.
\<close>

theorem decode_checked_failure_atomic:
  assumes "length bs \<noteq> 3"
  shows "decode_checked_in bs u = Some (Inl LengthMismatch, u)"
  using assms by (rule decode_checked_in_length)

theorem decode_checked_failure_atomic_witness:
  "length [0, 1 :: uint8_t] \<noteq> 3 \<and>
   decode_checked_in [0, 1] [7, 8, 9] = Some (Inl LengthMismatch, [7, 8, 9])"
  using decode_checked_failure_atomic [of "[0, 1]" "[7, 8, 9]"] by simp

text \<open>
  C8. The outcome of either conversion is a function of its input alone. Run on two
  union objects with different earlier contents, the same record encodes to the same
  bytes and the same bytes decode to the same record, and both runs leave the same
  contents in the object they used: nothing of the earlier contents is read, and
  nothing but the converted value is written.
\<close>

theorem conversions_depend_on_input_only:
  assumes "is_hts_settings_data u" and "is_hts_settings_data v"
  shows "encode_in r u = encode_in r v \<and> decode_in bs u = decode_in bs v"
proof -
  from assms obtain a b c a' b' c' where u: "u = [a, b, c]" and v: "v = [a', b', c']"
    by (auto simp: is_hts_settings_data_iff)
  have "encode_in r u = encode_in r v"
    by (simp add: u v encode_in_three)
  moreover have "decode_in bs u = decode_in bs v"
  proof (cases "length bs = 3")
    case True
    then obtain x y z where "bs = [x, y, z]"
      by (auto simp: length_three)
    then show ?thesis
      by (simp add: u v decode_in_three)
  next
    case False
    then show ?thesis
      by (simp add: decode_in_def bytes_update_length)
  qed
  ultimately show ?thesis ..
qed

theorem conversions_depend_on_input_only_witness:
  "is_hts_settings_data [0, 0, 0] \<and> is_hts_settings_data [255, 254, 253] \<and>
   encode_in \<lparr>wrist_orientation = 1, pair_button_orientation = 0, intensity_level = 2\<rparr>
       [0, 0, 0]
     = encode_in \<lparr>wrist_orientation = 1, pair_button_orientation = 0, intensity_level = 2\<rparr>
         [255, 254, 253] \<and>
   decode_in [0, 1, 1] [0, 0, 0] = decode_in [0, 1, 1] [255, 254, 253]"
proof -
  have a: "is_hts_settings_data [0, 0, 0]"
    by (simp add: is_hts_settings_data_def sizeof_hts_settings_data_eq)
  have b: "is_hts_settings_data [255, 254, 253]"
    by (simp add: is_hts_settings_data_def sizeof_hts_settings_data_eq)
  from a b conversions_depend_on_input_only [OF a b] show ?thesis
    by blast
qed

text \<open>
  C9. Round trip from the wire: decoding any array of exactly 3 bytes and encoding the
  record again gives the same 3 bytes, also where they are outside the documented
  values.
\<close>

theorem encode_decode_roundtrip:
  assumes "length bs = 3"
  shows "do { r \<leftarrow> decode bs; encode r } = Some bs"
proof -
  from assms obtain a b c where "bs = [a, b, c]"
    by (auto simp: length_three)
  then show ?thesis
    by (simp add: decode_three encode_eq)
qed

theorem encode_decode_roundtrip_witness:
  "length [9, 9, 9 :: uint8_t] = 3 \<and> do { r \<leftarrow> decode [9, 9, 9]; encode r } = Some [9, 9, 9]"
  using encode_decode_roundtrip [of "[9, 9, 9]"] by simp

text \<open>
  C10. Encoding is injective on all records, whatever bytes their members hold: two
  records with the same wire form are the same record.
\<close>

theorem encode_injective:
  assumes "encode r1 = encode r2"
  shows "r1 = r2"
  using assms by (simp add: encode_eq)

theorem encode_injective_witness:
  "encode \<lparr>wrist_orientation = 5, pair_button_orientation = 0, intensity_level = 2\<rparr>
     = encode \<lparr>wrist_orientation = 2 + 3, pair_button_orientation = 0, intensity_level = 1 + 1\<rparr> \<and>
   \<lparr>wrist_orientation = 5, pair_button_orientation = 0, intensity_level = 2\<rparr>
     = \<lparr>wrist_orientation = 2 + 3, pair_button_orientation = 0, intensity_level = (1 + 1 :: uint8_t)\<rparr>"
proof -
  have e: "encode \<lparr>wrist_orientation = 5, pair_button_orientation = 0, intensity_level = 2\<rparr>
     = encode \<lparr>wrist_orientation = 2 + 3, pair_button_orientation = 0, intensity_level = 1 + 1\<rparr>"
    by (simp add: encode_eq)
  from e encode_injective [OF e] show ?thesis
    by blast
qed

end
